theory Spec2Isabelle
  imports Complex_Main "HOL-Library.Word"
begin

unbundle bit_operations_syntax

section \<open>SmartPlayer: a shallow embedding of src/components/SmartPlayer.tsx\<close>

text \<open>
  The component is embedded function by function. JavaScript numbers are modelled by
  exact reals (byte counts, indices and handles by naturals); every sample
  \<open>int16 / 32768\<close> is exactly representable, the other quotients are taken exactly.
  Strings are lists of characters. Platform functions whose code is not part of the
  repository (\<open>atob\<close>, image decoding, \<open>measureText\<close>) are parameters.
\<close>

subsection \<open>Data model (src/types.ts) and platform values\<close>

datatype AspectRatio = LANDSCAPE | PORTRAIT

record VideoSegment =
  id_seg :: string
  text_seg :: string
  imagePrompt :: string
  imageData :: string
  audioData :: string
  duration_seg :: real

record GeneratedVideo =
  id_video :: string
  topic :: string
  style :: string
  aspectRatio :: AspectRatio
  segments :: "VideoSegment list"
  timestamp :: real

text \<open>The exceptions of the platform calls the component makes.\<close>

datatype js_error =
    InvalidCharacterError
  | RangeError
  | NotSupportedError
  | InvalidStateError
  | ImageDecodeError

text \<open>A \<open>Uint8Array\<close> is a view on an \<open>ArrayBuffer\<close>: the bytes of the underlying
  buffer, and the window of them the view shows.\<close>

record Uint8Array =
  buffer :: "8 word list"
  byteOffset :: nat
  byteLength :: nat

text \<open>An \<open>AudioBuffer\<close>: \<open>length_buf\<close> sample frames per channel at \<open>sampleRate\<close>
  frames per second.\<close>

record AudioBuffer =
  numberOfChannels :: nat
  length_buf :: nat
  sampleRate :: nat
  channelData :: "real list list"

definition duration :: "AudioBuffer \<Rightarrow> real" where
  "duration b = real (length_buf b) / real (sampleRate b)"

record ImageBitmap =
  width :: nat
  height :: nat

text \<open>\<open>new Uint8Array(len)\<close> allocates a zero-filled buffer of its own, and the view
  covers all of it.\<close>

definition new_Uint8Array :: "nat \<Rightarrow> Uint8Array" where
  "new_Uint8Array len = \<lparr>buffer = replicate len 0, byteOffset = 0, byteLength = len\<rparr>"

text \<open>\<open>data.subarray(begin, end)\<close>: a new view on the same buffer; the buffer
  itself is neither copied nor shortened.\<close>

definition subarray :: "Uint8Array \<Rightarrow> nat \<Rightarrow> nat \<Rightarrow> Uint8Array" where
  "subarray data begin fin =
     (let b = min begin (byteLength data); e = min fin (byteLength data) in
      data\<lparr>byteOffset := byteOffset data + b, byteLength := e - b\<rparr>)"

text \<open>\<open>new Int16Array(buffer)\<close> without offset and length covers the whole buffer and
  throws a RangeError when the buffer's byte length is not a multiple of 2. The
  elements are read in the platform's byte order, little-endian here.\<close>

fun int16_elements :: "8 word list \<Rightarrow> 16 word list" where
  "int16_elements (lo # hi # rest) = word_cat hi lo # int16_elements rest"
| "int16_elements rest = []"

definition new_Int16Array :: "8 word list \<Rightarrow> js_error + 16 word list" where
  "new_Int16Array buf =
     (if length buf mod 2 \<noteq> 0 then Inl RangeError else Inr (int16_elements buf))"

text \<open>\<open>ctx.createBuffer(numberOfChannels, length, sampleRate)\<close>: a zero-filled buffer;
  it throws NotSupportedError when a count is zero or an argument is outside its nominal
  range (up to 32 channels, and the rates 8000 to 96000 that every implementation
  supports).\<close>

definition createBuffer :: "nat \<Rightarrow> nat \<Rightarrow> nat \<Rightarrow> js_error + AudioBuffer" where
  "createBuffer numChannels frameCount rate =
     (if numChannels = 0 \<or> 32 < numChannels \<or> frameCount = 0 \<or> rate < 8000 \<or> 96000 < rate
      then Inl NotSupportedError
      else Inr \<lparr>numberOfChannels = numChannels, length_buf = frameCount, sampleRate = rate,
                channelData = replicate numChannels (replicate frameCount 0)\<rparr>)"

text \<open>\<open>createImageBitmap(canvas)\<close> of a canvas of the given size; it rejects with
  InvalidStateError when a dimension is zero.\<close>

definition createImageBitmap_canvas :: "nat \<Rightarrow> nat \<Rightarrow> js_error + ImageBitmap" where
  "createImageBitmap_canvas w h =
     (if w = 0 \<or> h = 0 then Inl InvalidStateError else Inr \<lparr>width = w, height = h\<rparr>)"

subsection \<open>decodeBase64 and decodePCM\<close>

text \<open>\<open>atob\<close> either throws or returns a binary string, whose characters are the
  bytes. The loop stores \<open>charCodeAt(i)\<close> at index \<open>i\<close> of a fresh array.\<close>

definition decodeBase64 :: "(string \<Rightarrow> js_error + string) \<Rightarrow> string \<Rightarrow> js_error + Uint8Array" where
  "decodeBase64 atob base64 =
     (case atob base64 of
        Inl e \<Rightarrow> Inl e
      | Inr binaryString \<Rightarrow>
          (let len = length binaryString;
               bytes = new_Uint8Array len in
           Inr (bytes\<lparr>buffer := fold (\<lambda>i b. b[i := of_char (binaryString ! i)]) [0..<len]
                                      (buffer bytes)\<rparr>)))"

definition decodePCM :: "Uint8Array \<Rightarrow> nat \<Rightarrow> nat \<Rightarrow> js_error + AudioBuffer" where
  "decodePCM data0 rate numChannels =
     (let data = (if byteLength data0 mod 2 \<noteq> 0
                  then subarray data0 0 (byteLength data0 - 1) else data0) in
      case new_Int16Array (buffer data) of
        Inl e \<Rightarrow> Inl e
      | Inr dataInt16 \<Rightarrow>
          (let frameCount = length dataInt16 div numChannels in
           case createBuffer numChannels frameCount rate of
             Inl e \<Rightarrow> Inl e
           | Inr buf \<Rightarrow>
               Inr (buf\<lparr>channelData :=
                      map (\<lambda>channel.
                             map (\<lambda>i. real_of_int (sint (dataInt16 ! (i * numChannels + channel)))
                                          / 32768)
                                 [0..<frameCount])
                          [0..<numChannels]\<rparr>)))"

subsection \<open>loadAssets: the decode phase\<close>

text \<open>The body of the first \<open>try\<close> of the loop: decode the payload, then the samples.\<close>

definition decode_audio :: "(string \<Rightarrow> js_error + string) \<Rightarrow> VideoSegment \<Rightarrow> js_error + AudioBuffer" where
  "decode_audio atob segment =
     (case decodeBase64 atob (audioData segment) of
        Inl e \<Rightarrow> Inl e
      | Inr bytes \<Rightarrow> decodePCM bytes 24000 1)"

text \<open>The loop \<open>for (const segment of video.segments)\<close>, with the two arrays as
  accumulators. Each \<open>catch\<close> block runs its fallback; an exception thrown inside a
  \<open>catch\<close> block leaves the loop (\<open>Inl\<close>) and reaches the outer handler of
  \<open>loadAssets\<close>. \<open>loadImage\<close> stands for fetching the data URL and decoding the
  blob with \<open>createImageBitmap\<close>.\<close>

fun decode_loop ::
  "(string \<Rightarrow> js_error + string) \<Rightarrow> (string \<Rightarrow> js_error + ImageBitmap) \<Rightarrow> VideoSegment list
     \<Rightarrow> AudioBuffer list \<Rightarrow> ImageBitmap list \<Rightarrow> js_error + (AudioBuffer list \<times> ImageBitmap list)" where
  "decode_loop atob loadImage [] audioBuffers images = Inr (audioBuffers, images)"
| "decode_loop atob loadImage (segment # rest) audioBuffers images =
     (case (case decode_audio atob segment of
              Inr audioBuffer \<Rightarrow> Inr audioBuffer
            | Inl err \<Rightarrow> createBuffer 1 24000 24000) of
        Inl e \<Rightarrow> Inl e
      | Inr audioBuffer \<Rightarrow>
          (case (case loadImage (imageData segment) of
                   Inr imgBitmap \<Rightarrow> Inr imgBitmap
                 | Inl err \<Rightarrow> createImageBitmap_canvas 1 1) of
             Inl e \<Rightarrow> Inl e
           | Inr img \<Rightarrow> decode_loop atob loadImage rest (audioBuffers @ [audioBuffer]) (images @ [img])))"

subsection \<open>Caption word wrap (renderLoop, "Word Wrap")\<close>

text \<open>\<open>text.split(' ')\<close>: the pieces between single spaces, empty pieces kept;
  the empty string gives one empty piece.\<close>

fun split_space :: "string \<Rightarrow> string list" where
  "split_space [] = [[]]"
| "split_space (c # cs) =
     (if c = CHR '' '' then [] # split_space cs
      else (case split_space cs of
              [] \<Rightarrow> [[c]]
            | w # ws \<Rightarrow> (c # w) # ws))"

text \<open>The \<open>for\<close> loop over \<open>words\<close>: \<open>n\<close> is the loop counter, \<open>line\<close> the line
  being filled, \<open>lines\<close> the lines pushed so far. The result is the pair of both
  after the last word.\<close>

fun wrap_loop ::
  "(string \<Rightarrow> real) \<Rightarrow> real \<Rightarrow> nat \<Rightarrow> string list \<Rightarrow> string \<Rightarrow> string list
     \<Rightarrow> string \<times> string list" where
  "wrap_loop measureText maxWidth n [] line lines = (line, lines)"
| "wrap_loop measureText maxWidth n (w # ws) line lines =
     (let testLine = line @ w @ '' '' in
      if measureText testLine > maxWidth \<and> n > 0
      then wrap_loop measureText maxWidth (n + 1) ws (w @ '' '') (lines @ [line])
      else wrap_loop measureText maxWidth (n + 1) ws testLine lines)"

text \<open>The whole block: split, loop from \<open>line = ''\<close> and \<open>lines = []\<close>, then the
  final \<open>lines.push(line)\<close>.\<close>

definition wordWrap :: "(string \<Rightarrow> real) \<Rightarrow> real \<Rightarrow> string \<Rightarrow> string list" where
  "wordWrap measureText maxWidth caption =
     (case wrap_loop measureText maxWidth 0 (split_space caption) [] [] of
        (line, lines) \<Rightarrow> lines @ [line])"

subsection \<open>Component state\<close>

text \<open>
  A React render fixes the values of the state variables its functions read:
  \<open>renderLoop\<close>, \<open>playSegment\<close> and \<open>togglePlay\<close> are created anew by every
  render and see the \<open>isPlaying\<close> and \<open>currentSegmentIndex\<close> of that render, while the
  refs are shared by all renders. A \<open>Closure\<close> holds the two captured values.
\<close>

record Closure =
  c_isPlaying :: bool
  c_currentSegmentIndex :: nat

datatype AudioContextState = Running | Suspended

text \<open>A source node made by \<open>playSegment\<close>: its buffer, the \<open>index\<close> its
  \<open>onended\<close> handler captured, the render whose \<open>playSegment\<close> made it (the handler
  calls that same \<open>playSegment\<close>), whether \<open>stop()\<close> was called on it and whether
  its ended event has fired. Every node is started when it is made.\<close>

record AudioBufferSourceNode =
  buffer_src :: "AudioBuffer option"
  index_src :: nat
  closure_src :: Closure
  stopped :: bool
  ended :: bool

definition playing :: "AudioBufferSourceNode \<Rightarrow> bool" where
  "playing source = (\<not> stopped source \<and> \<not> ended source)"

text \<open>What one pass of \<open>renderLoop\<close> draws: the zoom applied to the image (none when
  there is no image for the segment), the caption lines, and the filled fraction of the
  progress bar.\<close>

record Frame =
  frame_scale :: "real option"
  frame_lines :: "string list"
  frame_progress :: real

text \<open>The state variables (as set for the next render), the values of the last
  committed render, the refs, the source nodes created so far, the animation frame
  requests that are pending (handle and the \<open>renderLoop\<close> registered), the size of the
  container and the frame on the canvas.\<close>

record Player =
  isPlaying :: bool
  currentSegmentIndex :: nat
  isLoaded :: bool
  rendered :: Closure
  canvasMounted :: bool
  audioContext :: "AudioContextState option"
  audioBuffers :: "AudioBuffer list"
  imageBitmaps :: "ImageBitmap list"
  currentSource :: "nat option"
  sources :: "AudioBufferSourceNode list"
  segmentStartTime :: real
  animationFrame :: nat
  rafQueue :: "(nat \<times> Closure) list"
  nextHandle :: nat
  clientWidth :: nat
  clientHeight :: nat
  canvas :: "Frame option"

record Platform =
  p_atob :: "string \<Rightarrow> js_error + string"
  p_loadImage :: "string \<Rightarrow> js_error + ImageBitmap"
  p_measureText :: "real \<Rightarrow> string \<Rightarrow> real"

definition initial :: "nat \<Rightarrow> nat \<Rightarrow> Player" where
  "initial w h =
     \<lparr>isPlaying = False, currentSegmentIndex = 0, isLoaded = False,
      rendered = \<lparr>c_isPlaying = False, c_currentSegmentIndex = 0\<rparr>,
      canvasMounted = False, audioContext = None, audioBuffers = [], imageBitmaps = [],
      currentSource = None, sources = [], segmentStartTime = 0, animationFrame = 0,
      rafQueue = [], nextHandle = 1, clientWidth = w, clientHeight = h, canvas = None\<rparr>"

text \<open>\<open>animationFrameRef.current = requestAnimationFrame(renderLoop)\<close>: the request is
  queued under a fresh non-zero handle, which is stored in the ref.\<close>

definition requestAnimationFrame :: "Closure \<Rightarrow> Player \<Rightarrow> Player" where
  "requestAnimationFrame env st =
     st\<lparr>rafQueue := rafQueue st @ [(nextHandle st, env)],
        animationFrame := nextHandle st,
        nextHandle := nextHandle st + 1\<rparr>"

definition cancelAnimationFrame :: "nat \<Rightarrow> Player \<Rightarrow> Player" where
  "cancelAnimationFrame handle st =
     st\<lparr>rafQueue := filter (\<lambda>(h, env). h \<noteq> handle) (rafQueue st)\<rparr>"

subsection \<open>renderLoop\<close>

definition segmentDuration :: "AudioBuffer list \<Rightarrow> nat \<Rightarrow> real" where
  "segmentDuration bufs segmentIdx =
     (if segmentIdx < length bufs then duration (bufs ! segmentIdx) * 1000 else 5000)"

definition segmentProgress :: "real \<Rightarrow> real \<Rightarrow> real" where
  "segmentProgress elapsed segDuration = min (max (elapsed / segDuration) 0) 1"

definition kenBurnsScale :: "real \<Rightarrow> real" where
  "kenBurnsScale progress = 1.0 + (progress * 0.15)"

text \<open>The progress bar: both sums are the \<open>reduce\<close> calls of the source, the second
  over \<open>slice(0, segmentIdx)\<close>.\<close>

definition totalProgressPct :: "AudioBuffer list \<Rightarrow> nat \<Rightarrow> real \<Rightarrow> real" where
  "totalProgressPct bufs segmentIdx elapsed =
     (let totalDuration = foldl (\<lambda>acc b. acc + duration b) 0 bufs;
          prevDuration = foldl (\<lambda>acc b. acc + duration b) 0 (take segmentIdx bufs);
          currentProgress = prevDuration + elapsed / 1000
      in min (currentProgress / totalDuration) 1)"

text \<open>The drawing part of \<open>renderLoop\<close>, from \<open>performance.now()\<close> on; the canvas has
  the width of its container after the resize step. It is reached only with
  \<open>segmentIdx\<close> below the number of segments.\<close>

definition render_frame :: "Platform \<Rightarrow> GeneratedVideo \<Rightarrow> Closure \<Rightarrow> real \<Rightarrow> Player \<Rightarrow> Frame" where
  "render_frame P video env now st =
     (let segmentIdx = c_currentSegmentIndex env;
          canvasWidth = real (clientWidth st);
          elapsed = now - segmentStartTime st;
          progress = segmentProgress elapsed (segmentDuration (audioBuffers st) segmentIdx);
          caption = text_seg (segments video ! segmentIdx);
          fontSize = (if aspectRatio video = PORTRAIT then canvasWidth * 0.08
                      else canvasWidth * 0.04);
          maxWidth = canvasWidth * 0.85
      in \<lparr>frame_scale = (if segmentIdx < length (imageBitmaps st)
                          then Some (kenBurnsScale progress) else None),
          frame_lines = wordWrap (p_measureText P fontSize) maxWidth caption,
          frame_progress = totalProgressPct (audioBuffers st) segmentIdx elapsed\<rparr>)"

definition renderLoop :: "Platform \<Rightarrow> GeneratedVideo \<Rightarrow> Closure \<Rightarrow> real \<Rightarrow> Player \<Rightarrow> Player" where
  "renderLoop P video env now st =
     (if \<not> canvasMounted st then st
      else if \<not> c_isPlaying env \<and> audioContext st = Some Suspended
      then requestAnimationFrame env st
      else if c_currentSegmentIndex env \<ge> length (segments video) then st
      else (let st1 = st\<lparr>canvas := Some (render_frame P video env now st)\<rparr> in
            if c_isPlaying env then requestAnimationFrame env st1 else st1))"

subsection \<open>playSegment and togglePlay\<close>

text \<open>\<open>try { currentSourceRef.current.stop(); } catch(e) {}\<close>\<close>

definition stop_current :: "Player \<Rightarrow> Player" where
  "stop_current st =
     (case currentSource st of
        None \<Rightarrow> st
      | Some k \<Rightarrow> st\<lparr>sources := (sources st)[k := (sources st ! k)\<lparr>stopped := True\<rparr>]\<rparr>)"

text \<open>Creating the source for \<open>index\<close>, starting it and storing it in
  \<open>currentSourceRef\<close>.\<close>

definition start_source :: "Closure \<Rightarrow> nat \<Rightarrow> Player \<Rightarrow> Player" where
  "start_source env index st =
     (let source = \<lparr>buffer_src = (if index < length (audioBuffers st)
                                   then Some (audioBuffers st ! index) else None),
                    index_src = index, closure_src = env, stopped = False, ended = False\<rparr>
      in st\<lparr>sources := sources st @ [source], currentSource := Some (length (sources st))\<rparr>)"

definition playSegment :: "Platform \<Rightarrow> GeneratedVideo \<Rightarrow> Closure \<Rightarrow> real \<Rightarrow> nat \<Rightarrow> Player \<Rightarrow> Player" where
  "playSegment P video env now index st =
     (if index \<ge> length (segments video) then st\<lparr>isPlaying := False\<rparr>
      else case audioContext st of
        None \<Rightarrow> st
      | Some ctx \<Rightarrow>
          (let st1 = start_source env index (stop_current st);
               st2 = st1\<lparr>currentSegmentIndex := index, segmentStartTime := now,
                         isPlaying := True\<rparr>
           in if animationFrame st2 = 0 then renderLoop P video env now st2 else st2))"

text \<open>\<open>togglePlay\<close>, with its awaits taken as immediate: \<open>ctx.resume()\<close> makes the
  context running, \<open>ctx.suspend()\<close> suspended.\<close>

definition togglePlay :: "Platform \<Rightarrow> GeneratedVideo \<Rightarrow> Closure \<Rightarrow> real \<Rightarrow> Player \<Rightarrow> Player" where
  "togglePlay P video env now st =
     (case audioContext st of
        None \<Rightarrow> st
      | Some ctx0 \<Rightarrow>
          (let st1 = (if ctx0 = Suspended then st\<lparr>audioContext := Some Running\<rparr> else st) in
           if c_isPlaying env then
             (if audioContext st1 = Some Running
              then st1\<lparr>audioContext := Some Suspended, isPlaying := False\<rparr>
              else st1)
           else if audioContext st1 = Some Suspended then
             renderLoop P video env now (st1\<lparr>audioContext := Some Running, isPlaying := True\<rparr>)
           else if c_currentSegmentIndex env \<ge> length (segments video)
                   \<or> (int (c_currentSegmentIndex env) \<ge> int (length (segments video)) - 1
                       \<and> currentSource st1 = None)
           then playSegment P video env now 0 st1
           else renderLoop P video env now (st1\<lparr>isPlaying := True\<rparr>)))"

subsection \<open>Effects, renders and events\<close>

text \<open>The effect with dependencies \<open>[isPlaying, currentSegmentIndex]\<close>, run by the
  render whose values are \<open>env\<close>.\<close>

definition playing_effect :: "Platform \<Rightarrow> GeneratedVideo \<Rightarrow> Closure \<Rightarrow> real \<Rightarrow> Player \<Rightarrow> Player" where
  "playing_effect P video env now st =
     (if c_isPlaying env then renderLoop P video env now st
      else if animationFrame st \<noteq> 0 then cancelAnimationFrame (animationFrame st) st
      else st)"

text \<open>After a handler has run, React renders again with the new state: the canvas
  exists once \<open>isLoaded\<close> holds, and the effect runs when one of its dependencies
  differs from the previous render.\<close>

definition commit :: "Platform \<Rightarrow> GeneratedVideo \<Rightarrow> real \<Rightarrow> Player \<Rightarrow> Player" where
  "commit P video now st =
     (let env = \<lparr>c_isPlaying = isPlaying st, c_currentSegmentIndex = currentSegmentIndex st\<rparr>;
          st1 = st\<lparr>canvasMounted := isLoaded st\<rparr>
      in if env = rendered st then st1
         else playing_effect P video env now (st1\<lparr>rendered := env\<rparr>))"

text \<open>\<open>loadAssets\<close>, run once by the first render: \<open>created\<close> is the state of the
  new AudioContext, or \<open>None\<close> when its constructor throws. Both failures end in the
  outer \<open>catch\<close>, which only logs.\<close>

definition loadAssets ::
  "Platform \<Rightarrow> GeneratedVideo \<Rightarrow> AudioContextState option \<Rightarrow> real \<Rightarrow> Player \<Rightarrow> Player" where
  "loadAssets P video created now st =
     (case created of
        None \<Rightarrow> st
      | Some ctx \<Rightarrow>
          (let st1 = st\<lparr>audioContext := Some ctx\<rparr> in
           case decode_loop (p_atob P) (p_loadImage P) (segments video) [] [] of
             Inl e \<Rightarrow> st1
           | Inr (audioBuffers', images) \<Rightarrow>
               (let st2 = st1\<lparr>audioBuffers := audioBuffers', imageBitmaps := images,
                              isLoaded := True\<rparr>
                in if ctx = Running
                   then playSegment P video \<lparr>c_isPlaying = False, c_currentSegmentIndex = 0\<rparr>
                          now 0 st2
                   else st2)))"

text \<open>The \<open>onended\<close> handler of source \<open>k\<close>: \<open>playSegment(index + 1)\<close> of the render
  that made the source.\<close>

definition source_ended :: "Platform \<Rightarrow> GeneratedVideo \<Rightarrow> nat \<Rightarrow> real \<Rightarrow> Player \<Rightarrow> Player" where
  "source_ended P video k now st =
     (let source = sources st ! k in
      playSegment P video (closure_src source) now (index_src source + 1)
        (st\<lparr>sources := (sources st)[k := source\<lparr>ended := True\<rparr>]\<rparr>))"

text \<open>One animation frame: the requests pending at its start run in the order they
  were made; requests made meanwhile wait for the next frame.\<close>

definition animation_frame :: "Platform \<Rightarrow> GeneratedVideo \<Rightarrow> real \<Rightarrow> Player \<Rightarrow> Player" where
  "animation_frame P video now st =
     foldl (\<lambda>s (h, env). renderLoop P video env now s) (st\<lparr>rafQueue := []\<rparr>) (rafQueue st)"

text \<open>What can happen to the mounted component: the asset load completes, the play
  overlay (present once loaded, while the render is not playing) is clicked, a started
  source that has not ended yet ends, the browser runs an animation frame. Every
  handler is followed by the render it causes. An event that cannot happen in the state
  changes nothing.\<close>

datatype Event =
    AssetsLoaded "AudioContextState option"
  | OverlayClicked
  | SourceEnded nat
  | AnimationFrame

definition step :: "Platform \<Rightarrow> GeneratedVideo \<Rightarrow> real \<times> Event \<Rightarrow> Player \<Rightarrow> Player" where
  "step P video timed st =
     (case timed of
        (now, AssetsLoaded created) \<Rightarrow>
          (if audioContext st = None \<and> \<not> isLoaded st
           then commit P video now (loadAssets P video created now st) else st)
      | (now, OverlayClicked) \<Rightarrow>
          (if canvasMounted st \<and> \<not> c_isPlaying (rendered st)
           then commit P video now (togglePlay P video (rendered st) now st) else st)
      | (now, SourceEnded k) \<Rightarrow>
          (if k < length (sources st) \<and> \<not> ended (sources st ! k)
           then commit P video now (source_ended P video k now st) else st)
      | (now, AnimationFrame) \<Rightarrow> commit P video now (animation_frame P video now st))"

definition run :: "Platform \<Rightarrow> GeneratedVideo \<Rightarrow> nat \<Rightarrow> nat \<Rightarrow> (real \<times> Event) list \<Rightarrow> Player" where
  "run P video w h events = foldl (\<lambda>st timed. step P video timed st) (initial w h) events"

text \<open>The indices of the sources that are playing.\<close>

definition audible :: "Player \<Rightarrow> nat list" where
  "audible st = filter (\<lambda>k. playing (sources st ! k)) [0..<length (sources st)]"

text \<open>Every source that is playing is the one \<open>currentSourceRef\<close> holds.\<close>

definition only_current_plays :: "Player \<Rightarrow> bool" where
  "only_current_plays st = (set (audible st) \<subseteq> set_option (currentSource st))"

subsection \<open>Example inputs\<close>

text \<open>A platform for the examples: \<open>atob\<close> at the payloads used below (base64 of the
  bytes 01 00 02, of 01 00 FE FF, and of no bytes; a payload with a character outside
  the alphabet throws), images that fail to decode when the payload is empty, and a
  font in which every character is half the font size wide.\<close>

definition example_platform :: Platform where
  "example_platform =
     \<lparr>p_atob = (\<lambda>s. if s = ''AQAC'' then Inr [CHR 0x01, CHR 0x00, CHR 0x02]
                    else if s = ''AQD+/w=='' then Inr [CHR 0x01, CHR 0x00, CHR 0xFE, CHR 0xFF]
                    else if s = [] then Inr []
                    else Inl InvalidCharacterError),
      p_loadImage = (\<lambda>s. if s = [] then Inl ImageDecodeError
                         else Inr \<lparr>width = 1024, height = 576\<rparr>),
      p_measureText = (\<lambda>fontSize s. fontSize * 0.5 * real (length s))\<rparr>"

definition example_segment :: "string \<Rightarrow> string \<Rightarrow> string \<Rightarrow> VideoSegment" where
  "example_segment caption img audio =
     \<lparr>id_seg = ''segment'', text_seg = caption, imagePrompt = [], imageData = img,
      audioData = audio, duration_seg = 5\<rparr>"

definition example_video :: "VideoSegment list \<Rightarrow> GeneratedVideo" where
  "example_video segs =
     \<lparr>id_video = ''video'', topic = ''topic'', style = ''style'', aspectRatio = LANDSCAPE,
      segments = segs, timestamp = 0\<rparr>"

text \<open>A buffer of \<open>n\<close> silent frames at 24 kHz, as \<open>createBuffer(1, n, 24000)\<close> makes
  it.\<close>

definition example_buffer :: "nat \<Rightarrow> AudioBuffer" where
  "example_buffer n =
     \<lparr>numberOfChannels = 1, length_buf = n, sampleRate = 24000,
      channelData = [replicate n 0]\<rparr>"

text \<open>Projects of one and of two segments whose audio payload is empty: decoding
  yields no samples, \<open>createBuffer\<close> rejects the length 0, and each segment gets the
  one-second fallback.\<close>

definition example_one_segment :: GeneratedVideo where
  "example_one_segment = example_video [example_segment ''hello world'' ''/9j/4AAQ'' []]"

definition example_two_segments :: GeneratedVideo where
  "example_two_segments =
     example_video [example_segment ''hello world'' ''/9j/4AAQ'' [],
                    example_segment ''second scene'' ''/9j/4AAQ'' []]"

text \<open>The one-segment project just loaded, with the audio context running (times in
  milliseconds); then its narration has ended after one second; then the play overlay
  is clicked at 5 s.\<close>

definition example_loaded :: Player where
  "example_loaded =
     run example_platform example_one_segment 640 360 [(0, AssetsLoaded (Some Running))]"

definition example_ended :: Player where
  "example_ended =
     run example_platform example_one_segment 640 360
       [(0, AssetsLoaded (Some Running)), (16, AnimationFrame), (1000, SourceEnded 0)]"

definition example_replay :: Player where
  "example_replay =
     run example_platform example_one_segment 640 360
       [(0, AssetsLoaded (Some Running)), (16, AnimationFrame), (1000, SourceEnded 0),
        (5000, OverlayClicked)]"

text \<open>The two-segment project played to its end, and two animation frames later.\<close>

definition example_played_through :: Player where
  "example_played_through =
     run example_platform example_two_segments 640 360
       [(0, AssetsLoaded (Some Running)), (16, AnimationFrame), (1000, SourceEnded 0),
        (1016, AnimationFrame), (2000, SourceEnded 1)]"

definition example_after_end :: Player where
  "example_after_end =
     run example_platform example_two_segments 640 360
       [(0, AssetsLoaded (Some Running)), (16, AnimationFrame), (1000, SourceEnded 0),
        (1016, AnimationFrame), (2000, SourceEnded 1), (2016, AnimationFrame),
        (2032, AnimationFrame)]"

text \<open>The two-segment project loaded, its first narration playing.\<close>

definition example_first_playing :: Player where
  "example_first_playing =
     run example_platform example_two_segments 640 360
       [(0, AssetsLoaded (Some Running)), (16, AnimationFrame)]"

text \<open>A state in the middle of playback of the given buffers: segment \<open>idx\<close> started
  at time \<open>start\<close>.\<close>

definition example_playing :: "AudioBuffer list \<Rightarrow> nat \<Rightarrow> real \<Rightarrow> Player" where
  "example_playing bufs idx start =
     (initial 640 360)
       \<lparr>isPlaying := True, currentSegmentIndex := idx, isLoaded := True,
        rendered := \<lparr>c_isPlaying = True, c_currentSegmentIndex = idx\<rparr>,
        canvasMounted := True, audioContext := Some Running, audioBuffers := bufs,
        imageBitmaps := replicate (length bufs) \<lparr>width = 1024, height = 576\<rparr>,
        segmentStartTime := start\<rparr>"

section \<open>Properties\<close>

subsection \<open>Decoding\<close>

lemma decode_loop_result:
  "decode_loop atob loadImage segs acc imgs =
     Inr (acc @ map (\<lambda>s. case decode_audio atob s of
                            Inr b \<Rightarrow> b
                          | Inl e \<Rightarrow> \<lparr>numberOfChannels = 1, length_buf = 24000,
                                       sampleRate = 24000, channelData = [replicate 24000 0]\<rparr>) segs,
          imgs @ map (\<lambda>s. case loadImage (imageData s) of
                            Inr bmp \<Rightarrow> bmp
                          | Inl e \<Rightarrow> \<lparr>width = 1, height = 1\<rparr>) segs)"
proof (induction segs arbitrary: acc imgs)
  case Nil
  show ?case by simp
next
  case (Cons s segs)
  show ?case
    by (cases "decode_audio atob s"; cases "loadImage (imageData s)")
       (simp_all add: Cons.IH createBuffer_def createImageBitmap_canvas_def)
qed

lemma decodePCM_odd:
  assumes "byteLength data mod 2 = 1" and "length (buffer data) mod 2 = 1"
  shows "decodePCM data rate numChannels = Inl RangeError"
  using assms by (simp add: decodePCM_def subarray_def new_Int16Array_def Let_def)

lemma fold_store:
  "k \<le> length b \<Longrightarrow> fold (\<lambda>i b. b[i := f i]) [0..<k] b = map f [0..<k] @ drop k b"
proof (induction k)
  case 0
  show ?case by simp
next
  case (Suc k)
  then have "fold (\<lambda>i b. b[i := f i]) [0..<k] b = map f [0..<k] @ drop k b" by simp
  moreover have "(map f [0..<k] @ drop k b)[k := f k] = map f [0..<k] @ [f k] @ drop (Suc k) b"
    using Suc.prems by (simp add: list_update_append upd_conv_take_nth_drop)
  ultimately show ?case by simp
qed

lemma map_nth_upt: "map (\<lambda>i. f (xs ! i)) [0..<length xs] = map f xs"
  by (rule nth_equalityI) simp_all

lemma decodeBase64_bytes:
  "decodeBase64 atob s =
     (case atob s of Inl e \<Rightarrow> Inl e
      | Inr bs \<Rightarrow> Inr \<lparr>buffer = map of_char bs, byteOffset = 0, byteLength = length bs\<rparr>)"
proof (cases "atob s")
  case (Inl e)
  then show ?thesis by (simp add: decodeBase64_def)
next
  case (Inr bs)
  have "fold (\<lambda>i b. b[i := of_char (bs ! i)]) [0..<length bs] (replicate (length bs) (0::8 word))
          = map (\<lambda>i. of_char (bs ! i)) [0..<length bs] @ drop (length bs) (replicate (length bs) 0)"
    by (rule fold_store) simp
  also have "\<dots> = map of_char bs"
    by (simp add: map_nth_upt)
  finally show ?thesis using Inr by (simp add: decodeBase64_def new_Uint8Array_def Let_def)
qed

lemma decode_audio_odd:
  "atob (audioData seg) = Inr bs \<Longrightarrow> odd (length bs) \<Longrightarrow> decode_audio atob seg = Inl RangeError"
  by (simp add: decode_audio_def decodeBase64_bytes decodePCM_odd odd_iff_mod_2_eq_one)

text \<open>
  C2. An odd-length payload is not decoded from its first \<open>2n\<close> bytes. \<open>subarray\<close>
  only narrows the view; \<open>data.buffer\<close> is still the whole buffer of odd length, on
  which \<open>new Int16Array\<close> throws. At the payload 01 00 02 (base64 \<open>AQAC\<close>)
  \<open>decodePCM\<close> raises RangeError, where the first two bytes alone decode to the one
  sample \<open>1 / 32768\<close>; the decode phase then stores the 24000 silent frames of its
  fallback for the segment.
\<close>

theorem decodePCM_odd_payload:
  "decodePCM \<lparr>buffer = [0x01, 0x00, 0x02], byteOffset = 0, byteLength = 3\<rparr> 24000 1
     = Inl RangeError
   \<and> decodePCM \<lparr>buffer = [0x01, 0x00], byteOffset = 0, byteLength = 2\<rparr> 24000 1
     = Inr \<lparr>numberOfChannels = 1, length_buf = 1, sampleRate = 24000,
            channelData = [[1 / 32768]]\<rparr>
   \<and> decodeBase64 (p_atob example_platform) ''AQAC''
     = Inr \<lparr>buffer = [0x01, 0x00, 0x02], byteOffset = 0, byteLength = 3\<rparr>
   \<and> (\<exists>images. decode_loop (p_atob example_platform) (p_loadImage example_platform)
          [example_segment ''one'' [] ''AQAC''] [] []
        = Inr ([\<lparr>numberOfChannels = 1, length_buf = 24000, sampleRate = 24000,
                  channelData = [replicate 24000 0]\<rparr>], images))"
  by (simp add: decodePCM_def subarray_def new_Int16Array_def createBuffer_def word_cat_eq
        decodeBase64_bytes example_platform_def decode_loop_result decode_audio_def
        example_segment_def)

text \<open>
  C5. The decode phase always completes with a result (no exception leaves the loop),
  with one audio buffer per segment. Where decoding a segment's audio fails, whatever
  the error, its entry is the buffer of \<open>createBuffer(1, 24000, 24000)\<close>: one channel
  of 24000 zero samples at 24000 Hz, one second long; the segments that decode keep
  their decoded buffers.
\<close>

theorem decode_failure_silent:
  "\<exists>audioBuffers images.
     decode_loop atob loadImage segs [] [] = Inr (audioBuffers, images)
     \<and> length audioBuffers = length segs
     \<and> (\<forall>i < length segs.
           (\<forall>e. decode_audio atob (segs ! i) = Inl e \<longrightarrow>
              audioBuffers ! i = \<lparr>numberOfChannels = 1, length_buf = 24000, sampleRate = 24000,
                                   channelData = [replicate 24000 0]\<rparr>
              \<and> duration (audioBuffers ! i) = 1)
           \<and> (\<forall>b. decode_audio atob (segs ! i) = Inr b \<longrightarrow> audioBuffers ! i = b))"
  by (auto simp: decode_loop_result duration_def)



theorem decode_failure_silent_witness:
  "decode_audio (p_atob example_platform) (example_segment ''one'' [] ''!'') = Inl InvalidCharacterError
   \<and> decode_audio (p_atob example_platform) (example_segment ''two'' [] ''AQD+/w=='')
       = Inr \<lparr>numberOfChannels = 1, length_buf = 2, sampleRate = 24000,
              channelData = [[1 / 32768, - 2 / 32768]]\<rparr>
   \<and> (\<exists>audioBuffers images.
         decode_loop (p_atob example_platform) (p_loadImage example_platform)
           [example_segment ''one'' [] ''!'', example_segment ''two'' [] ''AQD+/w==''] [] []
           = Inr (audioBuffers, images)
         \<and> audioBuffers ! 0 = example_buffer 24000
         \<and> audioBuffers ! 1 = \<lparr>numberOfChannels = 1, length_buf = 2, sampleRate = 24000,
              channelData = [[1 / 32768, - 2 / 32768]]\<rparr>)"
proof -
  let ?a = "p_atob example_platform"
  let ?l = "p_loadImage example_platform"
  let ?s1 = "example_segment ''one'' [] ''!''"
  let ?s2 = "example_segment ''two'' [] ''AQD+/w==''"
  let ?b2 = "\<lparr>numberOfChannels = 1, length_buf = 2, sampleRate = 24000,
              channelData = [[1 / 32768, - 2 / 32768]]\<rparr>"
  have d1: "decode_audio ?a ([?s1, ?s2] ! 0) = Inl InvalidCharacterError"
    by (simp add: decode_audio_def decodeBase64_bytes example_platform_def example_segment_def)
  have d2: "decode_audio ?a ([?s1, ?s2] ! 1) = Inr ?b2"
    by (simp add: decode_audio_def decodeBase64_bytes example_platform_def example_segment_def
          decodePCM_def new_Int16Array_def createBuffer_def word_cat_eq)
  from decode_failure_silent [of ?a ?l "[?s1, ?s2]"]
  obtain audioBuffers images where
    r: "decode_loop ?a ?l [?s1, ?s2] [] [] = Inr (audioBuffers, images)"
    and a: "\<forall>i < length [?s1, ?s2].
           (\<forall>e. decode_audio ?a ([?s1, ?s2] ! i) = Inl e \<longrightarrow>
              audioBuffers ! i = \<lparr>numberOfChannels = 1, length_buf = 24000, sampleRate = 24000,
                                   channelData = [replicate 24000 0]\<rparr>
              \<and> duration (audioBuffers ! i) = 1)
           \<and> (\<forall>b. decode_audio ?a ([?s1, ?s2] ! i) = Inr b \<longrightarrow> audioBuffers ! i = b)"
    by (elim exE conjE) (rule that)
  have l0: "0 < length [?s1, ?s2]" and l1: "1 < length [?s1, ?s2]" by simp_all
  from a [rule_format, OF l0, THEN conjunct1, rule_format, OF d1, THEN conjunct1]
  have b0: "audioBuffers ! 0 = example_buffer 24000"
    by (simp only: example_buffer_def)
  from a [rule_format, OF l1, THEN conjunct2, rule_format, OF d2]
  have b1: "audioBuffers ! 1 = ?b2" .
  show ?thesis
  proof (intro conjI exI)
    show "decode_audio ?a ?s1 = Inl InvalidCharacterError" using d1 by (simp only: nth_Cons_0)
    show "decode_audio ?a ?s2 = Inr ?b2" using d2 by (simp only: nth_Cons_0 One_nat_def nth_Cons_Suc)
    show "decode_loop ?a ?l [?s1, ?s2] [] [] = Inr (audioBuffers, images)" by (rule r)
    show "audioBuffers ! 0 = example_buffer 24000" by (rule b0)
    show "audioBuffers ! 1 = ?b2" by (rule b1)
  qed
qed

text \<open>
  C7. The decode phase yields an audio sequence and an image sequence that both have
  the length of the segment list, and entry \<open>i\<close> of each belongs to segment \<open>i\<close>: the
  decoded buffer or, on failure, the silent fallback; the decoded image or, on failure,
  the 1 x 1 placeholder.
\<close>

theorem decode_loop_aligned:
  "\<exists>audioBuffers images.
     decode_loop atob loadImage segs [] [] = Inr (audioBuffers, images)
     \<and> length audioBuffers = length segs
     \<and> length images = length segs
     \<and> (\<forall>i < length segs.
           audioBuffers ! i = (case decode_audio atob (segs ! i) of
                                 Inr b \<Rightarrow> b
                               | Inl e \<Rightarrow> \<lparr>numberOfChannels = 1, length_buf = 24000,
                                            sampleRate = 24000, channelData = [replicate 24000 0]\<rparr>)
           \<and> images ! i = (case loadImage (imageData (segs ! i)) of
                             Inr bmp \<Rightarrow> bmp
                           | Inl e \<Rightarrow> \<lparr>width = 1, height = 1\<rparr>))"
  by (simp add: decode_loop_result)


theorem decode_loop_aligned_witness:
  "\<exists>audioBuffers images.
     decode_loop (p_atob example_platform) (p_loadImage example_platform)
       [example_segment ''one'' [] ''!'', example_segment ''two'' ''/9j/4AAQ'' ''AQD+/w==''] [] []
       = Inr (audioBuffers, images)
     \<and> length audioBuffers = 2 \<and> length images = 2
     \<and> audioBuffers ! 0 = example_buffer 24000
     \<and> audioBuffers ! 1 = \<lparr>numberOfChannels = 1, length_buf = 2, sampleRate = 24000,
              channelData = [[1 / 32768, - 2 / 32768]]\<rparr>
     \<and> images ! 0 = \<lparr>width = 1, height = 1\<rparr>
     \<and> images ! 1 = \<lparr>width = 1024, height = 576\<rparr>"
proof -
  let ?a = "p_atob example_platform"
  let ?l = "p_loadImage example_platform"
  let ?s1 = "example_segment ''one'' [] ''!''"
  let ?s2 = "example_segment ''two'' ''/9j/4AAQ'' ''AQD+/w==''"
  let ?b2 = "\<lparr>numberOfChannels = 1, length_buf = 2, sampleRate = 24000,
              channelData = [[1 / 32768, - 2 / 32768]]\<rparr>"
  have d1: "decode_audio ?a ([?s1, ?s2] ! 0) = Inl InvalidCharacterError"
    by (simp add: decode_audio_def decodeBase64_bytes example_platform_def example_segment_def)
  have d2: "decode_audio ?a ([?s1, ?s2] ! 1) = Inr ?b2"
    by (simp add: decode_audio_def decodeBase64_bytes example_platform_def example_segment_def
          decodePCM_def new_Int16Array_def createBuffer_def word_cat_eq)
  have i1: "?l (imageData ([?s1, ?s2] ! 0)) = Inl ImageDecodeError"
    by (simp add: example_platform_def example_segment_def)
  have i2: "?l (imageData ([?s1, ?s2] ! 1)) = Inr \<lparr>width = 1024, height = 576\<rparr>"
    by (simp add: example_platform_def example_segment_def)
  from decode_loop_aligned [of ?a ?l "[?s1, ?s2]"]
  obtain audioBuffers images where
    r: "decode_loop ?a ?l [?s1, ?s2] [] [] = Inr (audioBuffers, images)"
    and la: "length audioBuffers = length [?s1, ?s2]"
    and li: "length images = length [?s1, ?s2]"
    and a: "\<forall>i < length [?s1, ?s2].
           audioBuffers ! i = (case decode_audio ?a ([?s1, ?s2] ! i) of
                                 Inr b \<Rightarrow> b
                               | Inl e \<Rightarrow> \<lparr>numberOfChannels = 1, length_buf = 24000,
                                            sampleRate = 24000, channelData = [replicate 24000 0]\<rparr>)
           \<and> images ! i = (case ?l (imageData ([?s1, ?s2] ! i)) of
                             Inr bmp \<Rightarrow> bmp
                           | Inl e \<Rightarrow> \<lparr>width = 1, height = 1\<rparr>)"
    by (elim exE conjE) (rule that)
  have l0: "0 < length [?s1, ?s2]" and l1: "1 < length [?s1, ?s2]" by simp_all
  from a [rule_format, OF l0]
  have b0: "audioBuffers ! 0 = example_buffer 24000"
    and m0: "images ! 0 = \<lparr>width = 1, height = 1\<rparr>"
    by (simp_all only: d1 i1 sum.case example_buffer_def)
  from a [rule_format, OF l1]
  have b1: "audioBuffers ! 1 = ?b2" and m1: "images ! 1 = \<lparr>width = 1024, height = 576\<rparr>"
    by (simp_all only: d2 i2 sum.case)
  show ?thesis
  proof (intro exI conjI)
    show "decode_loop ?a ?l [?s1, ?s2] [] [] = Inr (audioBuffers, images)" by (rule r)
    show "length audioBuffers = 2" using la by simp
    show "length images = 2" using li by simp
    show "audioBuffers ! 0 = example_buffer 24000" by (rule b0)
    show "audioBuffers ! 1 = ?b2" by (rule b1)
    show "images ! 0 = \<lparr>width = 1, height = 1\<rparr>" by (rule m0)
    show "images ! 1 = \<lparr>width = 1024, height = 576\<rparr>" by (rule m1)
  qed
qed

subsection \<open>Word wrap\<close>

lemma split_space_nonempty: "split_space s \<noteq> []"
  by (induction s) (auto split: list.splits)

lemma split_space_no_space: "CHR '' '' \<notin> set s \<Longrightarrow> split_space s = [s]"
  by (induction s) auto

lemma split_space_join:
  "concat (map (\<lambda>w. w @ '' '') (split_space s)) = s @ '' ''"
proof (induction s)
  case Nil
  show ?case by simp
next
  case (Cons c cs)
  show ?case
  proof (cases "c = CHR '' ''")
    case True
    with Cons show ?thesis by simp
  next
    case False
    obtain w ws where sp: "split_space cs = w # ws"
      using split_space_nonempty [of cs] by (cases "split_space cs") auto
    with Cons False show ?thesis by simp
  qed
qed

lemma wrap_loop_concat:
  "wrap_loop m mw n ws line lines = (line', lines') \<Longrightarrow>
     concat lines' @ line' = concat lines @ line @ concat (map (\<lambda>w. w @ '' '') ws)"
proof (induction ws arbitrary: n line lines)
  case Nil
  then show ?case by simp
next
  case (Cons w ws)
  show ?case
  proof (cases "m (line @ w @ '' '') > mw \<and> n > 0")
    case True
    with Cons.prems have "wrap_loop m mw (n + 1) ws (w @ '' '') (lines @ [line]) = (line', lines')"
      by (simp add: Let_def)
    from Cons.IH [OF this] show ?thesis by simp
  next
    case False
    with Cons.prems have "wrap_loop m mw (n + 1) ws (line @ w @ '' '') lines = (line', lines')"
      by (auto simp: Let_def)
    from Cons.IH [OF this] show ?thesis by simp
  qed
qed

text \<open>
  C9. A caption that is a single word (it contains no space) is wrapped into exactly
  one line, the word followed by the space the loop appends, whatever its measured
  width is; in particular when that width exceeds the maximum line width of 85% of the
  canvas width. The loop has no failing branch.
\<close>

theorem wordWrap_single_word:
  assumes "CHR '' '' \<notin> set caption"
    and "measureText (caption @ '' '') > canvasWidth * 0.85"
  shows "wordWrap measureText (canvasWidth * 0.85) caption = [caption @ '' '']
         \<and> length (wordWrap measureText (canvasWidth * 0.85) caption) = 1"
  using assms by (simp add: wordWrap_def split_space_no_space)

theorem wordWrap_single_word_witness:
  "CHR '' '' \<notin> set ''incomprehensibilities''
   \<and> (\<lambda>s. 10 * real (length s)) (''incomprehensibilities'' @ '' '') > 100 * 0.85
   \<and> wordWrap (\<lambda>s. 10 * real (length s)) (100 * 0.85) ''incomprehensibilities''
     = [''incomprehensibilities '']
   \<and> length (wordWrap (\<lambda>s. 10 * real (length s)) (100 * 0.85) ''incomprehensibilities'') = 1"
  using wordWrap_single_word [where caption = "''incomprehensibilities''" and measureText = "\<lambda>s. 10 * real (length s)"
       and canvasWidth = 100]
  by simp

text \<open>
  C10. For every caption, the empty one included, the wrap yields at least one line,
  and the lines concatenated in order are the caption followed by one space.
\<close>

theorem wordWrap_concat:
  "wordWrap measureText maxWidth caption \<noteq> []
   \<and> concat (wordWrap measureText maxWidth caption) = caption @ '' ''"
proof -
  obtain line lines where
    wl: "wrap_loop measureText maxWidth 0 (split_space caption) [] [] = (line, lines)"
    by (cases "wrap_loop measureText maxWidth 0 (split_space caption) [] []") auto
  from wrap_loop_concat [OF wl]
  have "concat lines @ line = caption @ '' ''"
    by (simp add: split_space_join)
  with wl show ?thesis by (simp add: wordWrap_def)
qed

end
